theory Spec2Isabelle
  imports Main "HOL-Library.Word"
begin

section \<open>Python values, exceptions and output\<close>

text \<open>
  The script \<^verbatim>\<open>vision/py_scripts/testVision.py\<close> is a sequence of calls into the ZED
  camera SDK (\<^verbatim>\<open>pyzed.sl\<close>), \<^verbatim>\<open>numpy\<close> and \<^verbatim>\<open>math\<close>. The values that flow
  through it are plain Python values. A float is kept as its IEEE-754 binary64 bit
  pattern, so that the tests for NaN, infinity and \<^verbatim>\<open>== -1\<close> are exact.
  \<open>PEnum c m\<close> is member \<open>m\<close> of the \<^verbatim>\<open>enum.Enum\<close> class \<open>c\<close> of the SDK.
\<close>

datatype pyval =
    PNone
  | PBool bool
  | PInt int
  | PFloat "64 word"
  | PStr string
  | PTuple "pyval list"
  | PEnum string string

datatype exn =
    AttributeError
  | TypeError
  | ValueError
  | IndexError
  | OverflowError
  | SystemExit int

datatype pyout =
    Print "pyval list"
  | PrintFormat string "pyval list"

text \<open>
  \<open>Print args\<close> is one call \<^verbatim>\<open>print(*args)\<close>; \<open>PrintFormat t args\<close> is
  \<^verbatim>\<open>print(t.format(*args))\<close>, kept unrendered.
\<close>

subsection \<open>Floats as bit patterns\<close>

definition float_sign :: "64 word \<Rightarrow> bool" where
  "float_sign w = bit w 63"

definition float_exponent :: "64 word \<Rightarrow> nat" where
  "float_exponent w = unat (drop_bit 52 w) mod 2048"

definition float_fraction :: "64 word \<Rightarrow> nat" where
  "float_fraction w = unat w mod 2 ^ 52"

definition float_isnan :: "64 word \<Rightarrow> bool" where
  "float_isnan w = (float_exponent w = 2047 \<and> float_fraction w \<noteq> 0)"

definition float_isinf :: "64 word \<Rightarrow> bool" where
  "float_isinf w = (float_exponent w = 2047 \<and> float_fraction w = 0)"

text \<open>
  A finite float is \<open>\<plusminus> float_mantissa w * 2 ^ float_scale w / 2 ^ 1075\<close>;
  \<open>float_eq_int w k\<close> is the Python comparison \<^verbatim>\<open>w == k\<close> of a float with an int,
  which is exact.
\<close>

definition float_mantissa :: "64 word \<Rightarrow> int" where
  "float_mantissa w =
     (if float_exponent w = 0 then int (float_fraction w)
      else 2 ^ 52 + int (float_fraction w))"

definition float_scale :: "64 word \<Rightarrow> nat" where
  "float_scale w = (if float_exponent w = 0 then 1 else float_exponent w)"

definition float_eq_int :: "64 word \<Rightarrow> int \<Rightarrow> bool" where
  "float_eq_int w k =
     (float_exponent w \<noteq> 2047 \<and>
      (if float_sign w then - float_mantissa w else float_mantissa w) * 2 ^ float_scale w
        = k * 2 ^ 1075)"

definition float_zero :: "64 word" where
  "float_zero = 0"

definition float_minus_one :: "64 word" where
  "float_minus_one = 0xBFF0000000000000"

definition float_nan :: "64 word" where
  "float_nan = 0x7FF8000000000000"

definition float_five :: "64 word" where
  "float_five = 0x4014000000000000"

subsection \<open>Operators of the language\<close>

text \<open>Truth value of an object in an \<^verbatim>\<open>if\<close>; a member of an \<^verbatim>\<open>enum.Enum\<close> is true.\<close>

fun py_truth :: "pyval \<Rightarrow> bool" where
  "py_truth PNone = False"
| "py_truth (PBool b) = b"
| "py_truth (PInt i) = (i \<noteq> 0)"
| "py_truth (PFloat w) = (\<not> float_eq_int w 0)"
| "py_truth (PStr s) = (s \<noteq> [])"
| "py_truth (PTuple xs) = (xs \<noteq> [])"
| "py_truth (PEnum c m) = True"

text \<open>\<^verbatim>\<open>v == k\<close> for an int \<open>k\<close>.\<close>

fun py_eq_int :: "pyval \<Rightarrow> int \<Rightarrow> bool" where
  "py_eq_int (PInt i) k = (i = k)"
| "py_eq_int (PBool b) k = ((if b then 1 else 0) = k)"
| "py_eq_int (PFloat w) k = float_eq_int w k"
| "py_eq_int PNone k = False"
| "py_eq_int (PStr s) k = False"
| "py_eq_int (PTuple xs) k = False"
| "py_eq_int (PEnum c m) k = False"

text \<open>\<^verbatim>\<open>v[i]\<close> for a literal index \<open>i \<ge> 0\<close>.\<close>

fun py_getitem :: "pyval \<Rightarrow> nat \<Rightarrow> exn + pyval" where
  "py_getitem (PTuple xs) i = (if i < length xs then Inr (xs ! i) else Inl IndexError)"
| "py_getitem (PStr s) i = (if i < length s then Inr (PStr [s ! i]) else Inl IndexError)"
| "py_getitem PNone i = Inl TypeError"
| "py_getitem (PBool b) i = Inl TypeError"
| "py_getitem (PInt k) i = Inl TypeError"
| "py_getitem (PFloat w) i = Inl TypeError"
| "py_getitem (PEnum c m) i = Inl TypeError"

text \<open>\<^verbatim>\<open>a, b = v\<close>.\<close>

fun py_unpack2 :: "pyval \<Rightarrow> exn + pyval \<times> pyval" where
  "py_unpack2 (PTuple xs) =
     (case xs of [a, b] \<Rightarrow> Inr (a, b) | _ \<Rightarrow> Inl ValueError)"
| "py_unpack2 (PStr s) =
     (case s of [a, b] \<Rightarrow> Inr (PStr [a], PStr [b]) | _ \<Rightarrow> Inl ValueError)"
| "py_unpack2 PNone = Inl TypeError"
| "py_unpack2 (PBool b) = Inl TypeError"
| "py_unpack2 (PInt k) = Inl TypeError"
| "py_unpack2 (PFloat w) = Inl TypeError"
| "py_unpack2 (PEnum c m) = Inl TypeError"

subsection \<open>Library behaviour taken as a parameter\<close>

text \<open>
  Neither the SDK nor numpy nor the C library is part of the repository. What the script
  needs from them and cannot be read off the script is a parameter of the model:
  \<^item> \<open>ERROR_CODE_success\<close>: the value of attribute \<^verbatim>\<open>success\<close> (lower case) of
    \<^verbatim>\<open>sl.ERROR_CODE\<close>, \<open>None\<close> when the class has no such attribute;
  \<^item> \<open>np_isnan_other\<close>, \<open>np_isinf_other\<close>: the outcome of
    \<^verbatim>\<open>if np.isnan(v)\<close> and \<^verbatim>\<open>if np.isinf(v)\<close> on a sequence or on an int outside the
    64-bit range, where it depends on the numpy version;
  \<^item> \<open>float_pow2\<close>: \<^verbatim>\<open>x ** 2\<close> on a float, which CPython hands to the C library
    (the result, or \<^verbatim>\<open>OverflowError\<close>).
\<close>

record runtime =
  ERROR_CODE_success :: "pyval option"
  np_isnan_other :: "pyval \<Rightarrow> exn + bool"
  np_isinf_other :: "pyval \<Rightarrow> exn + bool"
  float_pow2 :: "64 word \<Rightarrow> exn + pyval"

text \<open>
  \<open>np_test p other v\<close> is the truth value of \<^verbatim>\<open>np.isnan(v)\<close> (with \<open>p = float_isnan\<close>)
  or \<^verbatim>\<open>np.isinf(v)\<close> (with \<open>p = float_isinf\<close>) as an \<^verbatim>\<open>if\<close> reads it. numpy has no
  such test for \<^verbatim>\<open>None\<close>, strings and arbitrary objects.
\<close>

fun np_test :: "(64 word \<Rightarrow> bool) \<Rightarrow> (pyval \<Rightarrow> exn + bool) \<Rightarrow> pyval \<Rightarrow> exn + bool" where
  "np_test p other (PFloat w) = Inr (p w)"
| "np_test p other (PBool b) = Inr False"
| "np_test p other (PInt i) =
     (if - (2 ^ 63) \<le> i \<and> i < 2 ^ 63 then Inr False else other (PInt i))"
| "np_test p other (PTuple xs) = other (PTuple xs)"
| "np_test p other PNone = Inl TypeError"
| "np_test p other (PStr s) = Inl TypeError"
| "np_test p other (PEnum c m) = Inl TypeError"

definition np_isnan :: "runtime \<Rightarrow> pyval \<Rightarrow> exn + bool" where
  "np_isnan rt v = np_test float_isnan (np_isnan_other rt) v"

definition np_isinf :: "runtime \<Rightarrow> pyval \<Rightarrow> exn + bool" where
  "np_isinf rt v = np_test float_isinf (np_isinf_other rt) v"

text \<open>\<^verbatim>\<open>v ** 2\<close>.\<close>

fun py_pow2 :: "runtime \<Rightarrow> pyval \<Rightarrow> exn + pyval" where
  "py_pow2 rt (PInt i) = Inr (PInt (i * i))"
| "py_pow2 rt (PBool b) = Inr (PInt (if b then 1 else 0))"
| "py_pow2 rt (PFloat w) = float_pow2 rt w"
| "py_pow2 rt PNone = Inl TypeError"
| "py_pow2 rt (PStr s) = Inl TypeError"
| "py_pow2 rt (PTuple xs) = Inl TypeError"
| "py_pow2 rt (PEnum c m) = Inl TypeError"

text \<open>
  \<^verbatim>\<open>math.sqrt\<close> takes exactly one argument; the script calls it with three, which
  Python rejects before computing anything.
\<close>

definition math_sqrt3 :: "pyval \<Rightarrow> pyval \<Rightarrow> pyval \<Rightarrow> exn + pyval" where
  "math_sqrt3 a b c = Inl TypeError"

section \<open>The camera SDK as the script sees it\<close>

text \<open>
  The names of the SDK that the script spells as the SDK documents them.
\<close>

definition ERROR_CODE_SUCCESS :: pyval where
  "ERROR_CODE_SUCCESS = PEnum ''ERROR_CODE'' ''SUCCESS''"

definition MEASURE_DEPTH :: pyval where
  "MEASURE_DEPTH = PEnum ''MEASURE'' ''DEPTH''"

definition MEASURE_XYZRGBA :: pyval where
  "MEASURE_XYZRGBA = PEnum ''MEASURE'' ''XYZRGBA''"

definition VIEW_LEFT :: pyval where
  "VIEW_LEFT = PEnum ''VIEW'' ''LEFT''"

definition TIME_REFERENCE_IMAGE :: pyval where
  "TIME_REFERENCE_IMAGE = PEnum ''TIME_REFERENCE'' ''IMAGE''"

definition RESOLUTION_HD720 :: pyval where
  "RESOLUTION_HD720 = PEnum ''RESOLUTION'' ''HD720''"

definition DEPTH_MODE_PERFORMANCE :: pyval where
  "DEPTH_MODE_PERFORMANCE = PEnum ''DEPTH_MODE'' ''PERFORMANCE''"

text \<open>
  \<^verbatim>\<open>sl.ERROR_CODE.success\<close>: an attribute that a class does not have raises
  \<^verbatim>\<open>AttributeError\<close> when it is read.
\<close>

definition ERROR_CODE_success_attr :: "runtime \<Rightarrow> exn + pyval" where
  "ERROR_CODE_success_attr rt =
     (case ERROR_CODE_success rt of None \<Rightarrow> Inl AttributeError | Some v \<Rightarrow> Inr v)"

text \<open>\<^verbatim>\<open>a == b\<close> and \<^verbatim>\<open>a != b\<close> where \<open>b\<close> is a member of an \<^verbatim>\<open>enum.Enum\<close>: identity.\<close>

definition py_eq_enum :: "pyval \<Rightarrow> pyval \<Rightarrow> bool" where
  "py_eq_enum a b = (a = b)"

record init_parameters =
  sdk_verbose :: bool
  camera_resolution :: pyval
  camera_fps :: int
  init_depth_mode :: pyval

text \<open>
  \<^verbatim>\<open>sl.Mat\<close>: an image or measure buffer. What \<^verbatim>\<open>get_value(x, y)\<close> answers is the
  SDK's business and is a field of the buffer.
\<close>

record mat =
  mat_width :: int
  mat_height :: int
  mat_get_value :: "pyval \<Rightarrow> pyval \<Rightarrow> exn + pyval"

record frame =
  frame_image :: "pyval \<Rightarrow> mat"
  frame_measure :: "pyval \<Rightarrow> mat"
  frame_timestamp :: "pyval \<Rightarrow> pyval"

text \<open>
  The device: what \<^verbatim>\<open>open\<close> answers to the parameters it is given (a member name of
  \<^verbatim>\<open>sl.ERROR_CODE\<close>), the serial number it reports, and what the \<open>n\<close>-th
  \<^verbatim>\<open>grab\<close> answers and delivers.
\<close>

record device =
  dev_open :: "init_parameters \<Rightarrow> string"
  dev_serial_number :: pyval
  dev_grab :: "nat \<Rightarrow> string \<times> frame"

datatype sdk_call =
    Open init_parameters
  | GetCameraInformation
  | Grab
  | RetrieveImage pyval
  | RetrieveMeasure pyval
  | GetTimestamp pyval
  | Close

text \<open>
  The state the script runs in: the device, the number of grabs so far, the frame the SDK
  holds, the calls made into the SDK and the lines printed, both oldest first.
\<close>

record world =
  w_dev :: device
  w_grabs :: nat
  w_frame :: "frame option"
  w_calls :: "sdk_call list"
  w_out :: "pyout list"

definition start :: "device \<Rightarrow> world" where
  "start d = \<lparr>w_dev = d, w_grabs = 0, w_frame = None, w_calls = [], w_out = []\<rparr>"

definition called :: "sdk_call \<Rightarrow> world \<Rightarrow> world" where
  "called c w = w\<lparr>w_calls := w_calls w @ [c]\<rparr>"

definition py_print :: "pyval list \<Rightarrow> world \<Rightarrow> world" where
  "py_print args w = w\<lparr>w_out := w_out w @ [Print args]\<rparr>"

definition py_print_format :: "string \<Rightarrow> pyval list \<Rightarrow> world \<Rightarrow> world" where
  "py_print_format t args w = w\<lparr>w_out := w_out w @ [PrintFormat t args]\<rparr>"

definition empty_mat :: mat where
  "empty_mat = \<lparr>mat_width = 0, mat_height = 0, mat_get_value = (\<lambda>x y. Inl ValueError)\<rparr>"

definition zed_open :: "init_parameters \<Rightarrow> world \<Rightarrow> pyval \<times> world" where
  "zed_open ps w = (PEnum ''ERROR_CODE'' (dev_open (w_dev w) ps), called (Open ps) w)"

definition zed_serial_number :: "world \<Rightarrow> pyval \<times> world" where
  "zed_serial_number w = (dev_serial_number (w_dev w), called GetCameraInformation w)"

definition zed_grab :: "world \<Rightarrow> pyval \<times> world" where
  "zed_grab w =
     (case dev_grab (w_dev w) (w_grabs w) of
        (code, f) \<Rightarrow>
          (PEnum ''ERROR_CODE'' code,
           called Grab (w\<lparr>w_grabs := Suc (w_grabs w), w_frame := Some f\<rparr>)))"

text \<open>
  Retrieval without a preceding grab is a scenario the specification leaves undefined and
  the script never enters: each retrieval follows a grab in the same function. The model
  hands back an empty buffer and \<^verbatim>\<open>None\<close> there.
\<close>

definition zed_retrieve_image :: "pyval \<Rightarrow> world \<Rightarrow> mat \<times> world" where
  "zed_retrieve_image view w =
     ((case w_frame w of None \<Rightarrow> empty_mat | Some f \<Rightarrow> frame_image f view),
      called (RetrieveImage view) w)"

definition zed_retrieve_measure :: "pyval \<Rightarrow> world \<Rightarrow> mat \<times> world" where
  "zed_retrieve_measure kind w =
     ((case w_frame w of None \<Rightarrow> empty_mat | Some f \<Rightarrow> frame_measure f kind),
      called (RetrieveMeasure kind) w)"

definition zed_get_timestamp :: "pyval \<Rightarrow> world \<Rightarrow> pyval \<times> world" where
  "zed_get_timestamp reference w =
     ((case w_frame w of None \<Rightarrow> PNone | Some f \<Rightarrow> frame_timestamp f reference),
      called (GetTimestamp reference) w)"

definition zed_close :: "world \<Rightarrow> world" where
  "zed_close w = called Close w"

text \<open>
  An object a function of the script takes or returns: a plain value, a buffer, or the
  camera handle (the script has one camera).
\<close>

datatype pyobj = Val pyval | MatObj mat | CameraObj

text \<open>
  \<^verbatim>\<open>obj.get_value\<close>: only \<^verbatim>\<open>sl.Mat\<close> has the method; \<^verbatim>\<open>sl.Camera\<close> and plain values
  do not.
\<close>

fun attr_get_value :: "pyobj \<Rightarrow> exn + (pyval \<Rightarrow> pyval \<Rightarrow> exn + pyval)" where
  "attr_get_value (MatObj m) = Inr (mat_get_value m)"
| "attr_get_value CameraObj = Inl AttributeError"
| "attr_get_value (Val v) = Inl AttributeError"

section \<open>The script\<close>

type_synonym 'a outcome = "(exn + 'a) \<times> world"

text \<open>
  The functions that take \<^verbatim>\<open>camera\<close> are called with the handle \<^verbatim>\<open>initCamera\<close>
  returned; the script has one camera, whose state is part of the world, so the handle is
  no argument of their models. The constructors \<^verbatim>\<open>sl.Camera()\<close>,
  \<^verbatim>\<open>sl.InitParameters()\<close>, \<^verbatim>\<open>sl.RuntimeParameters()\<close> and \<^verbatim>\<open>sl.Mat()\<close> only
  allocate. A function without \<^verbatim>\<open>return\<close> returns \<^verbatim>\<open>None\<close>.
\<close>

definition initCamera :: "world \<Rightarrow> pyobj outcome" where
  "initCamera w =
     (let w1 = py_print [PStr ''Initializing camera...''] w;
          init_params = \<lparr>sdk_verbose = False, camera_resolution = RESOLUTION_HD720,
                         camera_fps = 30, init_depth_mode = DEPTH_MODE_PERFORMANCE\<rparr>;
          (err, w2) = zed_open init_params w1
      in if \<not> py_eq_enum err ERROR_CODE_SUCCESS
         then (Inl (SystemExit 1),
               py_print [PStr ''An unexpected error occurred while opening the camera.''] w2)
         else (let (zed_serial, w3) = zed_serial_number w2
               in (Inr CameraObj, py_print [PStr ''Camera serial number: '', zed_serial] w3)))"

definition resolution_line :: string where
  "resolution_line = ''Image resolution : {0} x {1} || Image timestamp : {2}'' @ [CHR 0x0A]"

definition captureImage :: "world \<Rightarrow> pyobj outcome" where
  "captureImage w =
     (let (code, w1) = zed_grab w
      in if py_eq_enum code ERROR_CODE_SUCCESS
         then (let (image, w2) = zed_retrieve_image VIEW_LEFT w1;
                   (timestamp, w3) = zed_get_timestamp TIME_REFERENCE_IMAGE w2
               in (Inr (Val PNone),
                   py_print_format resolution_line
                     [PInt (mat_width image), PInt (mat_height image), timestamp] w3))
         else (Inr (Val PNone), w1))"

definition getDepth :: "runtime \<Rightarrow> world \<Rightarrow> pyobj outcome" where
  "getDepth rt w =
     (let (code, w1) = zed_grab w
      in case ERROR_CODE_success_attr rt of
           Inl e \<Rightarrow> (Inl e, w1)
         | Inr s \<Rightarrow>
             if py_eq_enum code s
             then (let (depth, w2) = zed_retrieve_measure MEASURE_DEPTH w1
                   in (Inr (Val PNone), w2))
             else (Inr (Val PNone), w1))"

definition getImageandDepth :: "world \<Rightarrow> pyobj outcome" where
  "getImageandDepth w =
     (let (code, w1) = zed_grab w
      in if py_eq_enum code ERROR_CODE_SUCCESS
         then (let (image, w2) = zed_retrieve_image VIEW_LEFT w1;
                   (depth, w3) = zed_retrieve_measure MEASURE_DEPTH w2;
                   (timestamp, w4) = zed_get_timestamp TIME_REFERENCE_IMAGE w3
               in (Inr (Val PNone),
                   py_print_format resolution_line
                     [PInt (mat_width image), PInt (mat_height image), timestamp] w4))
         else (Inr (Val PNone), w1))"

text \<open>Sequencing of steps that may raise: the first exception ends the evaluation.\<close>

definition and_then :: "exn + 'a \<Rightarrow> ('a \<Rightarrow> exn + 'b) \<Rightarrow> exn + 'b" where
  "and_then r f = (case r of Inl e \<Rightarrow> Inl e | Inr x \<Rightarrow> f x)"

text \<open>
  \<^verbatim>\<open>depth_map.get_value(point[0], point[1])\<close>: the method is looked up first, then the
  arguments are evaluated left to right, then the call is made.
\<close>

definition call_get_value :: "pyobj \<Rightarrow> pyval \<Rightarrow> exn + pyval" where
  "call_get_value depth_map point =
     and_then (attr_get_value depth_map) (\<lambda>get_value.
     and_then (py_getitem point 0) (\<lambda>x.
     and_then (py_getitem point 1) (\<lambda>y.
       get_value x y)))"

text \<open>The body of the \<^verbatim>\<open>elif\<close> branch.\<close>

definition point_cloud_distance :: "runtime \<Rightarrow> pyobj \<Rightarrow> pyval \<Rightarrow> exn + pyval" where
  "point_cloud_distance rt depth_map point =
     and_then (call_get_value depth_map point) (\<lambda>r.
     and_then (py_unpack2 r) (\<lambda>(err, point_cloud_val).
     and_then (py_getitem point_cloud_val 0) (\<lambda>c0.
     and_then (py_pow2 rt c0) (\<lambda>a.
     and_then (py_getitem point_cloud_val 1) (\<lambda>c1.
     and_then (py_pow2 rt c1) (\<lambda>b.
     and_then (py_getitem point_cloud_val 2) (\<lambda>c2.
     and_then (py_pow2 rt c2) (\<lambda>c.
       math_sqrt3 a b c))))))))"

definition could_not_get :: pyout where
  "could_not_get = Print [PStr ''Error: Could not get distance for point'']"

definition too_close :: pyout where
  "too_close = Print [PStr ''Error: Maybe you're too close to the object?'']"

definition too_far :: pyout where
  "too_far = Print [PStr ''Error: Maybe you're too far from the object?'']"

definition unknown_mode :: pyout where
  "unknown_mode = Print [PStr ''Error: Unknown depth mode'']"

definition say :: "pyout \<Rightarrow> world \<Rightarrow> world" where
  "say line w = w\<lparr>w_out := w_out w @ [line]\<rparr>"

text \<open>
  \<^verbatim>\<open>getDistForPoint\<close> in two parts. \<open>choose_distance\<close> is the
  \<^verbatim>\<open>if\<close>/\<^verbatim>\<open>elif\<close>/\<^verbatim>\<open>else\<close> that assigns \<^verbatim>\<open>distance\<close> (initially \<open>-1\<close>);
  \<open>report_distance\<close> is the three diagnostics and the \<^verbatim>\<open>return\<close>.
\<close>

definition choose_distance ::
  "runtime \<Rightarrow> pyobj \<Rightarrow> pyval \<Rightarrow> pyval \<Rightarrow> world \<Rightarrow> pyval outcome" where
  "choose_distance rt depth_map point depth_mode w =
     (if py_truth MEASURE_DEPTH then (call_get_value depth_map point, w)
      else if py_truth MEASURE_XYZRGBA then (point_cloud_distance rt depth_map point, w)
      else (Inr (PInt (- 1)), say unknown_mode w))"

definition report_distance :: "runtime \<Rightarrow> pyval \<Rightarrow> world \<Rightarrow> pyobj outcome" where
  "report_distance rt distance w1 =
     (let w2 = (if py_eq_int distance (- 1) then say could_not_get w1 else w1)
      in case np_isnan rt distance of
           Inl e \<Rightarrow> (Inl e, w2)
         | Inr is_nan \<Rightarrow>
             (let w3 = (if is_nan then say too_close w2 else w2)
              in case np_isinf rt distance of
                   Inl e \<Rightarrow> (Inl e, w3)
                 | Inr is_inf \<Rightarrow>
                     (Inr (Val distance), if is_inf then say too_far w3 else w3)))"

definition getDistForPoint ::
  "runtime \<Rightarrow> pyobj \<Rightarrow> pyval \<Rightarrow> pyval \<Rightarrow> world \<Rightarrow> pyobj outcome" where
  "getDistForPoint rt depth_map point depth_mode w =
     (case choose_distance rt depth_map point depth_mode w of
        (Inl e, w1) \<Rightarrow> (Inl e, w1)
      | (Inr distance, w1) \<Rightarrow> report_distance rt distance w1)"

text \<open>One statement after another: an exception skips what follows.\<close>

definition next_do :: "'a outcome \<Rightarrow> ('a \<Rightarrow> world \<Rightarrow> 'b outcome) \<Rightarrow> 'b outcome" where
  "next_do r f = (case r of (Inl e, w) \<Rightarrow> (Inl e, w) | (Inr x, w) \<Rightarrow> f x w)"

definition main :: "runtime \<Rightarrow> device \<Rightarrow> pyobj outcome" where
  "main rt d =
     next_do (initCamera (start d)) (\<lambda>zed w1.
     next_do (captureImage w1) (\<lambda>_ w2.
     next_do (getDepth rt w2) (\<lambda>_ w3.
     next_do (getDistForPoint rt zed (PTuple [PInt 0, PInt 0]) MEASURE_DEPTH w3) (\<lambda>_ w4.
       (Inr (Val PNone), zed_close w4)))))"

text \<open>
  The status the interpreter ends with: that of \<^verbatim>\<open>exit(n)\<close>, 1 after any other
  exception that nothing catches, 0 when the script runs to its end.
\<close>

fun exit_status :: "exn + 'a \<Rightarrow> int" where
  "exit_status (Inr x) = 0"
| "exit_status (Inl (SystemExit n)) = n mod 256"
| "exit_status (Inl AttributeError) = 1"
| "exit_status (Inl TypeError) = 1"
| "exit_status (Inl ValueError) = 1"
| "exit_status (Inl IndexError) = 1"
| "exit_status (Inl OverflowError) = 1"

section \<open>Concrete library and device for evaluation\<close>

text \<open>
  A runtime in which \<^verbatim>\<open>sl.ERROR_CODE\<close> has no attribute \<^verbatim>\<open>success\<close>, as in the SDK,
  and numpy refuses every sequence with \<^verbatim>\<open>TypeError\<close>, as it does for one that holds
  an enum member. Squaring a float is of no concern to any evaluation below and is made
  to fail.
\<close>

definition plain_runtime :: runtime where
  "plain_runtime =
     \<lparr>ERROR_CODE_success = None,
      np_isnan_other = (\<lambda>v. Inl TypeError),
      np_isinf_other = (\<lambda>v. Inl TypeError),
      float_pow2 = (\<lambda>w. Inl OverflowError)\<rparr>"

text \<open>
  A runtime in which the lower-case name is another name of the very sentinel, so that
  the test of \<^verbatim>\<open>getDepth\<close> can succeed.
\<close>

definition lenient_runtime :: runtime where
  "lenient_runtime = plain_runtime\<lparr>ERROR_CODE_success := Some ERROR_CODE_SUCCESS\<rparr>"

definition flat_mat :: "int \<Rightarrow> int \<Rightarrow> pyval \<Rightarrow> mat" where
  "flat_mat width height v =
     \<lparr>mat_width = width, mat_height = height, mat_get_value = (\<lambda>x y. Inr v)\<rparr>"

definition test_frame :: frame where
  "test_frame =
     \<lparr>frame_image = (\<lambda>view. flat_mat 1280 720 (PInt 0)),
      frame_measure = (\<lambda>kind. flat_mat 1280 720 (PFloat float_five)),
      frame_timestamp = (\<lambda>reference. PInt 1700000000)\<rparr>"

definition good_device :: device where
  "good_device =
     \<lparr>dev_open = (\<lambda>ps. ''SUCCESS''),
      dev_serial_number = PInt 12345,
      dev_grab = (\<lambda>n. (''SUCCESS'', test_frame))\<rparr>"


definition origin :: pyval where
  "origin = PTuple [PInt 0, PInt 0]"

definition float_three :: "64 word" where
  "float_three = 0x4008000000000000"

definition float_four :: "64 word" where
  "float_four = 0x4010000000000000"


definition failed_lookup :: pyval where
  "failed_lookup = PTuple [PEnum ''ERROR_CODE'' ''FAILURE'', PFloat float_nan]"

definition cloud_345 :: pyval where
  "cloud_345 =
     PTuple [ERROR_CODE_SUCCESS,
             PTuple [PFloat float_three, PFloat float_four, PFloat float_zero, PFloat float_nan]]"

definition cloud_origin :: pyval where
  "cloud_origin =
     PTuple [ERROR_CODE_SUCCESS,
             PTuple [PFloat float_zero, PFloat float_zero, PFloat float_zero, PFloat float_nan]]"

definition bare_origin :: pyval where
  "bare_origin = PTuple [PFloat float_zero, PFloat float_zero, PFloat float_zero]"

text \<open>The configuration \<^verbatim>\<open>initCamera\<close> builds before it opens the camera.\<close>

definition fixed_parameters :: init_parameters where
  "fixed_parameters =
     \<lparr>sdk_verbose = False, camera_resolution = RESOLUTION_HD720,
      camera_fps = 30, init_depth_mode = DEPTH_MODE_PERFORMANCE\<rparr>"

definition initializing :: pyout where
  "initializing = Print [PStr ''Initializing camera...'']"

definition open_failed :: pyout where
  "open_failed = Print [PStr ''An unexpected error occurred while opening the camera.'']"

definition serial_line :: "pyval \<Rightarrow> pyout" where
  "serial_line serial = Print [PStr ''Camera serial number: '', serial]"

section \<open>Facts about the operators\<close>

lemma float_nan_is_nan: "float_isnan float_nan"
  by (simp add: float_isnan_def float_nan_def float_exponent_def float_fraction_def
      drop_bit_eq_div)

lemma float_nan_not_inf: "\<not> float_isinf float_nan"
  by (simp add: float_isinf_def float_nan_def float_exponent_def float_fraction_def
      drop_bit_eq_div)

lemma float_nan_not_int: "\<not> float_eq_int float_nan k"
  by (simp add: float_eq_int_def float_nan_def float_exponent_def drop_bit_eq_div)

lemma float_minus_one_eq: "float_eq_int float_minus_one (- 1)"
  by (simp add: float_eq_int_def float_minus_one_def float_exponent_def float_fraction_def
      float_sign_def float_mantissa_def float_scale_def drop_bit_eq_div bit_iff_odd)

lemma float_minus_one_plain:
  "\<not> float_isnan float_minus_one \<and> \<not> float_isinf float_minus_one"
  by (simp add: float_isnan_def float_isinf_def float_minus_one_def float_exponent_def
      drop_bit_eq_div)

lemma py_truth_DEPTH: "py_truth MEASURE_DEPTH"
  by (simp add: MEASURE_DEPTH_def)

text \<open>The first condition of \<^verbatim>\<open>getDistForPoint\<close> holds whatever the arguments are.\<close>

lemma choose_distance_first:
  "choose_distance rt depth_map point depth_mode w = (call_get_value depth_map point, w)"
  by (simp add: choose_distance_def py_truth_DEPTH)

lemma getDistForPoint_lookup:
  "getDistForPoint rt depth_map point depth_mode w =
     (case call_get_value depth_map point of
        Inl e \<Rightarrow> (Inl e, w)
      | Inr distance \<Rightarrow> report_distance rt distance w)"
  by (simp add: getDistForPoint_def choose_distance_first split: sum.splits)

text \<open>The \<^verbatim>\<open>elif\<close> body never yields a distance: at the latest \<^verbatim>\<open>math.sqrt\<close> raises.\<close>

lemma point_cloud_distance_raises: "\<exists>e. point_cloud_distance rt depth_map point = Inl e"
  by (auto simp: point_cloud_distance_def and_then_def math_sqrt3_def
      split: sum.splits prod.splits)


lemma call_get_value_flat: "call_get_value (MatObj (flat_mat a b v)) origin = Inr v"
  by (simp add: call_get_value_def and_then_def flat_mat_def origin_def)


text \<open>A tuple is returned as it is, if at all, and is equal to no number.\<close>

lemma report_distance_tuple:
  "\<not> (\<exists>v. fst (report_distance rt (PTuple xs) w) = Inr (Val v) \<and> py_eq_int v k)"
  by (auto simp: report_distance_def Let_def np_isnan_def np_isinf_def split: sum.splits)

section \<open>Distance at a point\<close>




section \<open>Facts about the camera functions\<close>

lemma zed_grab_success:
  "dev_grab (w_dev w) (w_grabs w) = (code, f) \<Longrightarrow>
   zed_grab w = (PEnum ''ERROR_CODE'' code,
                 called Grab (w\<lparr>w_grabs := Suc (w_grabs w), w_frame := Some f\<rparr>))"
  by (simp add: zed_grab_def)

lemma captureImage_success:
  assumes "dev_grab (w_dev w) (w_grabs w) = (''SUCCESS'', f)"
  shows "captureImage w =
     (Inr (Val PNone),
      w\<lparr>w_grabs := Suc (w_grabs w), w_frame := Some f,
        w_calls := w_calls w @ [Grab, RetrieveImage VIEW_LEFT, GetTimestamp TIME_REFERENCE_IMAGE],
        w_out := w_out w @ [PrintFormat resolution_line
           [PInt (mat_width (frame_image f VIEW_LEFT)), PInt (mat_height (frame_image f VIEW_LEFT)),
            frame_timestamp f TIME_REFERENCE_IMAGE]]\<rparr>)"
  by (simp add: captureImage_def zed_grab_success [OF assms] py_eq_enum_def ERROR_CODE_SUCCESS_def
      zed_retrieve_image_def zed_get_timestamp_def called_def py_print_format_def)

lemma getImageandDepth_success:
  assumes "dev_grab (w_dev w) (w_grabs w) = (''SUCCESS'', f)"
  shows "getImageandDepth w =
     (Inr (Val PNone),
      w\<lparr>w_grabs := Suc (w_grabs w), w_frame := Some f,
        w_calls := w_calls w @ [Grab, RetrieveImage VIEW_LEFT, RetrieveMeasure MEASURE_DEPTH,
                    GetTimestamp TIME_REFERENCE_IMAGE],
        w_out := w_out w @ [PrintFormat resolution_line
           [PInt (mat_width (frame_image f VIEW_LEFT)), PInt (mat_height (frame_image f VIEW_LEFT)),
            frame_timestamp f TIME_REFERENCE_IMAGE]]\<rparr>)"
  by (simp add: getImageandDepth_def zed_grab_success [OF assms] py_eq_enum_def ERROR_CODE_SUCCESS_def
      zed_retrieve_image_def zed_retrieve_measure_def zed_get_timestamp_def called_def py_print_format_def)

lemma getDepth_cases:
  assumes "dev_grab (w_dev w) (w_grabs w) = (code, f)"
  shows "getDepth rt w =
     (let w1 = w\<lparr>w_grabs := Suc (w_grabs w), w_frame := Some f, w_calls := w_calls w @ [Grab]\<rparr>
      in case ERROR_CODE_success rt of
           None \<Rightarrow> (Inl AttributeError, w1)
         | Some s \<Rightarrow>
             if s = PEnum ''ERROR_CODE'' code
             then (Inr (Val PNone), w1\<lparr>w_calls := w_calls w @ [Grab, RetrieveMeasure MEASURE_DEPTH]\<rparr>)
             else (Inr (Val PNone), w1))"
  by (auto simp: getDepth_def zed_grab_success [OF assms] py_eq_enum_def ERROR_CODE_success_attr_def
      zed_retrieve_measure_def called_def Let_def split: option.splits)

lemma captureImage_value: "fst (captureImage w) = Inr (Val PNone)"
  by (simp add: captureImage_def split: prod.splits)

lemma getDepth_value: "fst (getDepth rt w) \<in> {Inl AttributeError, Inr (Val PNone)}"
  by (auto simp: getDepth_def ERROR_CODE_success_attr_def split: prod.splits option.splits)

lemma initCamera_outcome:
  "initCamera w =
     (if dev_open (w_dev w) fixed_parameters = ''SUCCESS''
      then (Inr CameraObj,
            w\<lparr>w_calls := w_calls w @ [Open fixed_parameters, GetCameraInformation],
              w_out := w_out w @ [initializing, serial_line (dev_serial_number (w_dev w))]\<rparr>)
      else (Inl (SystemExit 1),
            w\<lparr>w_calls := w_calls w @ [Open fixed_parameters],
              w_out := w_out w @ [initializing, open_failed]\<rparr>))"
  by (simp add: initCamera_def Let_def zed_open_def zed_serial_number_def called_def py_print_def
      py_eq_enum_def ERROR_CODE_SUCCESS_def fixed_parameters_def initializing_def open_failed_def
      serial_line_def)

section \<open>Grab checks and what the retrieval functions hand back\<close>



text \<open>
  Claim C5, as the specification states it: after a successful grab \<^verbatim>\<open>captureImage\<close>
  returns the left image with its timestamp to the caller and \<^verbatim>\<open>getDepth\<close> returns the
  depth buffer. It does not hold: neither function has a \<^verbatim>\<open>return\<close>. After a grab
  that succeeded \<^verbatim>\<open>captureImage\<close> returns \<^verbatim>\<open>None\<close>, and so does \<^verbatim>\<open>getDepth\<close> even
  where its test holds and it retrieves the depth measure.
\<close>

theorem retrieval_returns_nothing:
  "fst (dev_grab good_device 0) = ''SUCCESS'' \<and>
   fst (captureImage (start good_device)) = Inr (Val PNone) \<and>
   fst (getDepth lenient_runtime (start good_device)) = Inr (Val PNone) \<and>
   w_calls (snd (getDepth lenient_runtime (start good_device)))
     = [Grab, RetrieveMeasure MEASURE_DEPTH]"
proof -
  have g: "dev_grab (w_dev (start good_device)) (w_grabs (start good_device))
             = (''SUCCESS'', test_frame)"
    by (simp add: start_def good_device_def)
  have c: "w_calls (start good_device) = []" by (simp add: start_def)
  have s: "ERROR_CODE_success lenient_runtime = Some (PEnum ''ERROR_CODE'' ''SUCCESS'')"
    by (simp add: lenient_runtime_def ERROR_CODE_SUCCESS_def)
  have d: "fst (dev_grab good_device 0) = ''SUCCESS''" by (simp add: good_device_def)
  show ?thesis
    by (simp add: captureImage_value getDepth_cases [OF g] s c d)
qed

text \<open>
  Claim C5, amended: after a successful grab \<^verbatim>\<open>captureImage\<close> retrieves the left
  image and the image timestamp of the frame, prints the width and height of the image
  and the timestamp, and returns \<^verbatim>\<open>None\<close>; \<^verbatim>\<open>getDepth\<close> hands no depth buffer to
  its caller either: what it returns, if it returns, is \<^verbatim>\<open>None\<close>.
\<close>

theorem capture_and_depth_return_None:
  assumes "dev_grab (w_dev w) (w_grabs w) = (''SUCCESS'', f)"
  shows "fst (captureImage w) = Inr (Val PNone) \<and>
         w_calls (snd (captureImage w)) =
           w_calls w @ [Grab, RetrieveImage VIEW_LEFT, GetTimestamp TIME_REFERENCE_IMAGE] \<and>
         w_out (snd (captureImage w)) =
           w_out w @ [PrintFormat resolution_line
             [PInt (mat_width (frame_image f VIEW_LEFT)),
              PInt (mat_height (frame_image f VIEW_LEFT)),
              frame_timestamp f TIME_REFERENCE_IMAGE]] \<and>
         fst (getDepth rt w) \<in> {Inl AttributeError, Inr (Val PNone)}"
  using getDepth_value [of rt w] by (simp add: captureImage_success [OF assms])

text \<open>
  Claim C5, amended, at a device whose grab delivers a 1280 x 720 frame.
\<close>

theorem capture_and_depth_return_None_witness:
  "dev_grab (w_dev (start good_device)) (w_grabs (start good_device)) = (''SUCCESS'', test_frame) \<and>
   fst (captureImage (start good_device)) = Inr (Val PNone) \<and>
   w_out (snd (captureImage (start good_device))) =
     [PrintFormat resolution_line [PInt 1280, PInt 720, PInt 1700000000]] \<and>
   fst (getDepth lenient_runtime (start good_device)) \<in> {Inl AttributeError, Inr (Val PNone)}"
proof -
  have a: "dev_grab (w_dev (start good_device)) (w_grabs (start good_device))
             = (''SUCCESS'', test_frame)"
    by (simp add: start_def good_device_def)
  have b: "w_out (start good_device) = []" by (simp add: start_def)
  show ?thesis using a capture_and_depth_return_None [OF a, of lenient_runtime]
    by (simp add: b test_frame_def flat_mat_def)
qed

text \<open>
  Claim C9: from the same state, in which the next grab succeeds and delivers frame
  \<open>f\<close>, \<^verbatim>\<open>captureImage\<close> and \<^verbatim>\<open>getImageandDepth\<close> print the same line: the width and
  height of the left image of \<open>f\<close> and its image timestamp.
\<close>

theorem same_grab_same_report:
  assumes "dev_grab (w_dev w) (w_grabs w) = (''SUCCESS'', f)"
  shows "w_out (snd (captureImage w)) =
           w_out w @ [PrintFormat resolution_line
             [PInt (mat_width (frame_image f VIEW_LEFT)),
              PInt (mat_height (frame_image f VIEW_LEFT)),
              frame_timestamp f TIME_REFERENCE_IMAGE]] \<and>
         w_out (snd (getImageandDepth w)) = w_out (snd (captureImage w))"
  by (simp add: captureImage_success [OF assms] getImageandDepth_success [OF assms])

text \<open>
  Claim C9 at a device whose grab delivers a 1280 x 720 frame.
\<close>

theorem same_grab_same_report_witness:
  "dev_grab (w_dev (start good_device)) (w_grabs (start good_device)) = (''SUCCESS'', test_frame) \<and>
   w_out (snd (captureImage (start good_device))) =
     [PrintFormat resolution_line [PInt 1280, PInt 720, PInt 1700000000]] \<and>
   w_out (snd (getImageandDepth (start good_device))) =
     [PrintFormat resolution_line [PInt 1280, PInt 720, PInt 1700000000]]"
proof -
  have a: "dev_grab (w_dev (start good_device)) (w_grabs (start good_device))
             = (''SUCCESS'', test_frame)"
    by (simp add: start_def good_device_def)
  have b: "w_out (start good_device) = []" by (simp add: start_def)
  show ?thesis using a same_grab_same_report [OF a]
    by (simp add: b test_frame_def flat_mat_def)
qed

section \<open>Opening the camera and the whole run\<close>



text \<open>
  Claim C4 says that the process exits with status 1 only when the camera does not
  open, and otherwise runs all four steps and ends with status 0. The script does not:
  whatever the device and the libraries do, the run ends with status 1 and never reaches
  \<^verbatim>\<open>close\<close>. When the camera opens, either \<^verbatim>\<open>getDepth\<close> fails on the name
  \<^verbatim>\<open>success\<close>, or \<^verbatim>\<open>getDistForPoint\<close> fails on the camera handle it is given in
  place of a depth map.
\<close>

theorem main_always_status_1:
  "exit_status (fst (main rt d)) = 1 \<and> Close \<notin> set (w_calls (snd (main rt d)))"
proof (cases "dev_open d fixed_parameters = ''SUCCESS''")
  case False
  then show ?thesis
    by (simp add: main_def next_do_def initCamera_outcome start_def)
next
  case True
  obtain c0 f0 where g0: "dev_grab d 0 = (c0, f0)" by (cases "dev_grab d 0")
  obtain c1 f1 where g1: "dev_grab d (Suc 0) = (c1, f1)" by (cases "dev_grab d (Suc 0)")
  show ?thesis
    using True g0 g1
    by (auto simp: main_def next_do_def initCamera_outcome start_def captureImage_def getDepth_def
        zed_grab_def zed_retrieve_image_def zed_retrieve_measure_def zed_get_timestamp_def
        called_def py_print_format_def py_eq_enum_def ERROR_CODE_success_attr_def
        getDistForPoint_lookup call_get_value_def and_then_def Let_def
        split: option.splits)
qed

section \<open>The depth mode and the sentinel\<close>

text \<open>
  Claim C10: the depth-mode argument has no influence. Two calls that differ in it
  only have the same result and the same effect; the first branch is taken for every
  input, so the distance is what the scalar lookup gives, and the message of the
  \<^verbatim>\<open>else\<close> branch is never printed.
\<close>

theorem depth_mode_ignored:
  "getDistForPoint rt depth_map point mode1 w = getDistForPoint rt depth_map point mode2 w \<and>
   choose_distance rt depth_map point mode1 w = (call_get_value depth_map point, w) \<and>
   unknown_mode \<notin> set (w_out (snd (getDistForPoint rt depth_map point mode1 (start d))))"
proof -
  have "unknown_mode \<notin> set (w_out (snd (getDistForPoint rt depth_map point mode1 (start d))))"
    by (auto simp: getDistForPoint_lookup report_distance_def Let_def say_def start_def
        unknown_mode_def could_not_get_def too_close_def too_far_def
        split: sum.splits)
  then show ?thesis
    by (simp add: getDistForPoint_lookup choose_distance_first)
qed

text \<open>
  Claim C3 says that the point-cloud mode makes \<^verbatim>\<open>getDistForPoint\<close> compute the
  Euclidean distance of the 3D point. At a point cloud whose pixel \<open>(0, 0)\<close> holds the
  point \<open>(3, 4, 0)\<close>, at distance 5, the call with \<^verbatim>\<open>sl.MEASURE.XYZRGBA\<close> never returns
  5: it runs the scalar lookup and goes on with the raw answer. The branch written for
  the point cloud would not return it either, since it always raises.
\<close>

theorem xyzrgba_mode_not_euclidean:
  "\<not> (\<exists>v. fst (getDistForPoint rt (MatObj (flat_mat 1280 720 cloud_345)) origin
                 MEASURE_XYZRGBA w) = Inr (Val v) \<and> py_eq_int v 5) \<and>
   (\<exists>e. point_cloud_distance rt (MatObj (flat_mat 1280 720 cloud_345)) origin = Inl e)"
  using report_distance_tuple point_cloud_distance_raises
  by (simp add: getDistForPoint_lookup call_get_value_flat cloud_345_def)

text \<open>
  Claim C6 says that a failed lookup at pixel \<open>(0, 0)\<close> in depth mode returns \<open>-1\<close> and
  logs that the distance could not be got. Where the buffer answers a failed lookup as
  the SDK does, with an error code and a value, the function never returns \<open>-1\<close> and
  never prints that message: the initial \<open>-1\<close> has been overwritten by the answer. Where
  the pixel is unset and the buffer answers NaN, the function returns NaN and prints the
  message about being too close. The message appears when the buffer itself answers
  \<open>-1\<close>.
\<close>

theorem failed_lookup_not_sentinel:
  "\<not> (\<exists>v. fst (getDistForPoint rt (MatObj (flat_mat 1280 720 failed_lookup)) origin
                 MEASURE_DEPTH (start d)) = Inr (Val v) \<and> py_eq_int v (- 1)) \<and>
   could_not_get \<notin> set (w_out (snd (getDistForPoint rt
      (MatObj (flat_mat 1280 720 failed_lookup)) origin MEASURE_DEPTH (start d)))) \<and>
   getDistForPoint rt (MatObj (flat_mat 1280 720 (PFloat float_nan))) origin MEASURE_DEPTH
      (start d) = (Inr (Val (PFloat float_nan)), say too_close (start d)) \<and>
   getDistForPoint rt (MatObj (flat_mat 1280 720 (PFloat float_minus_one))) origin
      MEASURE_DEPTH (start d)
     = (Inr (Val (PFloat float_minus_one)), say could_not_get (start d))"
proof -
  have one: "report_distance rt (PFloat float_minus_one) (start d)
               = (Inr (Val (PFloat float_minus_one)), say could_not_get (start d))"
    by (simp add: report_distance_def Let_def np_isnan_def np_isinf_def float_minus_one_plain
        float_minus_one_eq)
  have out: "could_not_get \<notin> set (w_out (snd (report_distance rt failed_lookup (start d))))"
    by (auto simp: report_distance_def Let_def failed_lookup_def say_def start_def
        could_not_get_def too_close_def too_far_def np_isnan_def np_isinf_def
        split: sum.splits)
  have nan: "report_distance rt (PFloat float_nan) (start d)
               = (Inr (Val (PFloat float_nan)), say too_close (start d))"
    by (simp add: report_distance_def Let_def np_isnan_def np_isinf_def float_nan_is_nan
        float_nan_not_inf float_nan_not_int)
  show ?thesis
    using report_distance_tuple out nan one
    by (simp add: getDistForPoint_lookup call_get_value_flat failed_lookup_def)
qed

text \<open>
  Claim C7 says that at a point cloud whose pixel \<open>(0, 0)\<close> maps to \<open>(0, 0, 0)\<close> the
  function returns the distance 0.0. It never does, neither when the buffer answers with
  an error code and the point nor when it answers with the bare point: what the function
  returns, if it returns, is that answer, which is equal to no number.
\<close>

theorem cloud_origin_not_zero:
  "\<not> (\<exists>v. fst (getDistForPoint rt (MatObj (flat_mat 1280 720 cloud_origin)) origin
                 MEASURE_XYZRGBA w) = Inr (Val v) \<and> py_eq_int v 0) \<and>
   \<not> (\<exists>v. fst (getDistForPoint rt (MatObj (flat_mat 1280 720 bare_origin)) origin
                 MEASURE_XYZRGBA w) = Inr (Val v) \<and> py_eq_int v 0)"
  using report_distance_tuple
  by (simp add: getDistForPoint_lookup call_get_value_flat cloud_origin_def bare_origin_def)

end
